theory Spec2Isabelle
  imports Main "HOL-Library.List_Lexorder" "HOL-Library.Sublist"
begin

section \<open>Strings\<close>

text \<open>
  A Python \<open>str\<close> is a sequence of Unicode code points; it is modelled as a list of
  natural numbers (the code points), so that \<open>length\<close>, indexing and slicing count what
  Python counts. Literals of the source are written \<open>ustr ''...''\<close>. Python compares
  strings code point by code point, a proper prefix being smaller; that is the
  lexicographic order on lists.
\<close>

type_synonym ustring = "nat list"

abbreviation ustr :: "string \<Rightarrow> ustring" where
  "ustr s \<equiv> map of_char s"

text \<open>
  \<open>is_space\<close> is CPython's \<open>Py_UNICODE_ISSPACE\<close>: the test behind both the pattern
  class \<open>\s\<close> of a \<open>str\<close> pattern and \<open>str.strip()\<close> without argument.
  \<open>is_word\<close> is the explicit class \<open>[a-zA-Z0-9_]\<close>.
\<close>

definition is_space :: "nat \<Rightarrow> bool" where
  "is_space c \<longleftrightarrow>
     (9 \<le> c \<and> c \<le> 13) \<or> (28 \<le> c \<and> c \<le> 32) \<or> c = 133 \<or> c = 160 \<or> c = 5760 \<or>
     (8192 \<le> c \<and> c \<le> 8202) \<or> c = 8232 \<or> c = 8233 \<or> c = 8239 \<or> c = 8287 \<or> c = 12288"

definition is_word :: "nat \<Rightarrow> bool" where
  "is_word c \<longleftrightarrow> (97 \<le> c \<and> c \<le> 122) \<or> (65 \<le> c \<and> c \<le> 90) \<or> (48 \<le> c \<and> c \<le> 57) \<or> c = 95"

text \<open>\<open>s.lstrip(chars)\<close>, \<open>s.rstrip(chars)\<close> and \<open>s.strip()\<close>, by the test for the stripped characters.\<close>

definition py_lstrip :: "(nat \<Rightarrow> bool) \<Rightarrow> ustring \<Rightarrow> ustring" where
  "py_lstrip P s = dropWhile P s"

definition py_rstrip :: "(nat \<Rightarrow> bool) \<Rightarrow> ustring \<Rightarrow> ustring" where
  "py_rstrip P s = rev (dropWhile P (rev s))"

definition py_strip :: "ustring \<Rightarrow> ustring" where
  "py_strip s = py_rstrip is_space (py_lstrip is_space s)"

section \<open>Output names\<close>

text \<open>
  The character class of the pattern in \<open>_sanitize_filename\<close>, by code point: the angle
  brackets 60 and 62, the colon 58, the double quote 34, the slash 47, the backslash 92,
  the bar 124, the question mark 63 and the asterisk 42.
\<close>

definition is_reserved :: "nat \<Rightarrow> bool" where
  "is_reserved c \<longleftrightarrow> c \<in> {60, 62, 58, 34, 47, 92, 124, 63, 42}"

text \<open>
  \<open>re.sub\<close> with the pattern \<open>[...]+\<close> and the replacement \<open>"_"\<close>: scanning from the left,
  a reserved character starts a match, the greedy \<open>+\<close> takes the whole run of reserved
  characters after it, one underscore (95) is written for the match, and the scan goes on
  after the run.
\<close>

function sub_reserved :: "ustring \<Rightarrow> ustring" where
  "sub_reserved [] = []"
| "sub_reserved (c # cs) =
     (if is_reserved c then 95 # sub_reserved (dropWhile is_reserved cs)
      else c # sub_reserved cs)"
  by pat_completeness auto
termination
  by (relation "measure length") (auto simp: less_Suc_eq_le length_dropWhile_le)

text \<open>\<open>_sanitize_filename\<close> (an Isabelle name cannot start with an underscore).\<close>

definition sanitize_filename :: "ustring \<Rightarrow> ustring" where
  "sanitize_filename name =
     (let name1 = py_strip name in
      if name1 = [] then ustr ''document''
      else
        let name2 = sub_reserved name1;
            name3 = py_strip (py_rstrip (\<lambda>c. c \<in> set (ustr ''. '')) name2)
        in if name3 = [] then ustr ''document'' else name3)"

text \<open>
  The format specification \<open>04d\<close> of \<open>f"document_{index:04d}"\<close>: the decimal digits,
  filled with zeros on the left to a width of at least 4, the sign of a negative number
  counting in the width.
\<close>

fun digits :: "nat \<Rightarrow> ustring" where
  "digits n = (if n < 10 then [48 + n] else digits (n div 10) @ [48 + n mod 10])"

declare digits.simps [simp del]

definition zfill :: "nat \<Rightarrow> ustring \<Rightarrow> ustring" where
  "zfill w s = replicate (w - length s) 48 @ s"

definition fmt_04d :: "int \<Rightarrow> ustring" where
  "fmt_04d i = (if i < 0 then 45 # zfill 3 (digits (nat (- i))) else zfill 4 (digits (nat i)))"

text \<open>
  A record (a row of the CSV file, \<open>Dict[str, str]\<close>) is a map from field names to values.
\<close>

type_synonym row = "ustring \<rightharpoonup> ustring"

definition name_keys :: "ustring list" where
  "name_keys = [ustr ''filename'', ustr ''file_name'', ustr ''doc_name'',
                ustr ''document_name'', ustr ''id'', ustr ''name'']"

text \<open>
  \<open>get_or_empty\<close> is \<open>row.get(key) or ""\<close>. \<open>choose_from\<close> is the loop of
  \<open>_choose_output_filename\<close> over the tuple of keys, with its early return:
  \<open>val = (row.get(key) or "").strip()\<close>, and \<open>if val: return _sanitize_filename(val)\<close>.
\<close>

definition get_or_empty :: "row \<Rightarrow> ustring \<Rightarrow> ustring" where
  "get_or_empty row key = (case row key of None \<Rightarrow> [] | Some v \<Rightarrow> v)"

fun choose_from :: "row \<Rightarrow> ustring list \<Rightarrow> ustring option" where
  "choose_from row [] = None"
| "choose_from row (key # keys) =
     (let val = py_strip (get_or_empty row key) in
      if val \<noteq> [] then Some (sanitize_filename val) else choose_from row keys)"

definition choose_output_filename :: "row \<Rightarrow> int \<Rightarrow> ustring" where
  "choose_output_filename row index =
     (case choose_from row name_keys of
        Some name \<Rightarrow> name
      | None \<Rightarrow> ustr ''document_'' @ fmt_04d index)"

section \<open>The style composer\<close>

text \<open>
  \<open>re.IGNORECASE\<close> on a \<open>str\<close> pattern compares a cased letter of the pattern with the
  lower case of the text's character. The letters of the two patterns below are
  \<open>h e a d t m l\<close>, and the only code points whose lower case is one of them are the
  ASCII capitals, so folding the ASCII capitals is the whole comparison.
\<close>

definition ascii_lower :: "nat \<Rightarrow> nat" where
  "ascii_lower c = (if 65 \<le> c \<and> c \<le> 90 then c + 32 else c)"

definition starts_with_ci :: "ustring \<Rightarrow> ustring \<Rightarrow> bool" where
  "starts_with_ci lit s \<longleftrightarrow> map ascii_lower (take (length lit) s) = lit"

text \<open>
  The two patterns, each as the attempt to match at the start of \<open>s\<close>, returning the
  length of the match. \<open></head\s*>\<close>: the literal, then the greedy run of whitespace, then
  the closing bracket (62); the bracket is no whitespace, so giving back whitespace never
  helps and the greedy attempt is the only one. \<open><html[^>]*>\<close>: the literal, then
  the greedy run of characters other than the closing bracket, then the bracket.
\<close>

definition match_close_head :: "ustring \<Rightarrow> nat option" where
  "match_close_head s =
     (if starts_with_ci (ustr ''</head'') s then
        (case dropWhile is_space (drop 6 s) of
           [] \<Rightarrow> None
         | c # _ \<Rightarrow>
             if c = 62 then Some (6 + length (takeWhile is_space (drop 6 s)) + 1) else None)
      else None)"

definition match_open_html :: "ustring \<Rightarrow> nat option" where
  "match_open_html s =
     (if starts_with_ci (ustr ''<html'') s then
        (case dropWhile (\<lambda>c. c \<noteq> 62) (drop 5 s) of
           [] \<Rightarrow> None
         | c # _ \<Rightarrow> Some (5 + length (takeWhile (\<lambda>c. c \<noteq> 62) (drop 5 s)) + 1))
      else None)"

text \<open>
  \<open>re.search\<close>: the start positions are tried from the left, and the first one where the
  pattern matches gives the match, returned as \<open>(m.start(), m.end())\<close>.
\<close>

fun re_search :: "(ustring \<Rightarrow> nat option) \<Rightarrow> ustring \<Rightarrow> (nat \<times> nat) option" where
  "re_search m [] = map_option (\<lambda>n. (0, n)) (m [])"
| "re_search m (c # cs) =
     (case m (c # cs) of
        Some n \<Rightarrow> Some (0, n)
      | None \<Rightarrow> map_option (\<lambda>(a, b). (Suc a, Suc b)) (re_search m cs))"

definition style_block :: "ustring \<Rightarrow> ustring" where
  "style_block css = ustr ''<style>'' @ [10] @ css @ [10] @ ustr ''</style>'' @ [10]"

text \<open>\<open>_inject_css_into_html\<close>; 10 is the newline.\<close>

definition inject_css_into_html :: "ustring \<Rightarrow> ustring \<Rightarrow> ustring" where
  "inject_css_into_html html css =
     (case re_search match_close_head html of
        Some (idx, _) \<Rightarrow> take idx html @ style_block css @ drop idx html
      | None \<Rightarrow>
          (case re_search match_open_html html of
             Some (_, idx) \<Rightarrow>
               take idx html @ [10] @ ustr ''<head>'' @ [10] @ style_block css @
               ustr ''</head>'' @ [10] @ drop idx html
           | None \<Rightarrow> style_block css @ html))"

section \<open>The placeholder resolver\<close>

text \<open>
  \<open>PLACEHOLDER_RE\<close>, the pattern \<open>\{\{\s*([a-zA-Z0-9_]+)\s*\}\}\<close>, as the attempt to match at
  the start of \<open>s\<close>: two opening braces (123), the greedy run of whitespace, the greedy run
  of name characters, which must not be empty, the greedy run of whitespace, two closing
  braces (125). The result is group 1 and the text after the match. Whitespace, name
  characters and the closing brace are disjoint classes, so no shorter run can make the
  rest match, and the greedy attempt is the only one.
\<close>

definition match_placeholder :: "ustring \<Rightarrow> (ustring \<times> ustring) option" where
  "match_placeholder s =
     (if take 2 s = ustr ''{{'' then
        (let r = dropWhile is_space (drop 2 s);
             key = takeWhile is_word r;
             r' = dropWhile is_space (dropWhile is_word r)
         in if key \<noteq> [] \<and> take 2 r' = ustr ''}}'' then Some (key, drop 2 r') else None)
      else None)"

text \<open>
  \<open>PLACEHOLDER_RE.sub(repl, template_text)\<close> with the closure \<open>repl\<close> of
  \<open>render_template\<close>: at each position from the left the pattern is tried; where it matches,
  \<open>repl\<close> is called, which appends an unknown key to \<open>missing\<close> and returns the empty
  string, or returns the record's value, and the scan goes on after the match (the
  replacement is not scanned); where it does not match, the character is copied. The list
  \<open>missing\<close> is threaded through the calls and returned with the text.
\<close>

function sub_placeholders :: "row \<Rightarrow> ustring \<Rightarrow> ustring list \<Rightarrow> ustring \<times> ustring list" where
  "sub_placeholders row [] missing = ([], missing)"
| "sub_placeholders row (c # cs) missing =
     (case match_placeholder (c # cs) of
        None \<Rightarrow>
          (case sub_placeholders row cs missing of (out, missing') \<Rightarrow> (c # out, missing'))
      | Some (key, rest) \<Rightarrow>
          (case row key of
             None \<Rightarrow> sub_placeholders row rest (missing @ [key])
           | Some v \<Rightarrow>
               (case sub_placeholders row rest missing of (out, missing') \<Rightarrow> (v @ out, missing'))))"
  by pat_completeness auto
termination
proof (relation "measure (\<lambda>(row, s, missing). length s)")
  show "wf (measure (\<lambda>(row, s, missing). length s))" by simp
next
  fix row :: row and c cs and missing :: "ustring list"
  show "((row, cs, missing), (row, c # cs, missing)) \<in> measure (\<lambda>(row, s, missing). length s)"
    by simp
next
  fix row :: row and c cs and missing :: "ustring list" and x2 key rest
  assume "match_placeholder (c # cs) = Some x2" and "(key, rest) = x2"
  then have m: "match_placeholder (c # cs) = Some (key, rest)" by simp
  have "length rest < length (c # cs)"
  proof -
    let ?r = "dropWhile is_space (drop 2 (c # cs))"
    let ?r' = "dropWhile is_space (dropWhile is_word ?r)"
    from m have "rest = drop 2 ?r'" and "take 2 ?r' = ustr ''{{'' \<or> take 2 ?r' = ustr ''}}''"
      by (auto simp: match_placeholder_def Let_def split: if_splits)
    moreover have "length ?r' \<le> length (c # cs)"
      using length_dropWhile_le[of is_space "dropWhile is_word ?r"] length_dropWhile_le[of is_word ?r]
        length_dropWhile_le[of is_space "drop 2 (c # cs)"] by simp
    ultimately show ?thesis by auto
  qed
  then show "((row, rest, missing @ [key]), (row, c # cs, missing)) \<in> measure (\<lambda>(row, s, missing). length s)"
    and "((row, rest, missing), (row, c # cs, missing)) \<in> measure (\<lambda>(row, s, missing). length s)"
    by simp_all
qed

text \<open>
  \<open>str.replace(old, new)\<close>: the occurrences of \<open>old\<close> are replaced from the left, the scan
  going on after each one. For an empty \<open>old\<close> Python puts \<open>new\<close> before every character
  and at the end.
\<close>

function replace_scan :: "ustring \<Rightarrow> ustring \<Rightarrow> ustring \<Rightarrow> ustring" where
  "replace_scan old new [] = []"
| "replace_scan old new (c # cs) =
     (if old \<noteq> [] \<and> take (length old) (c # cs) = old
      then new @ replace_scan old new (drop (length old) (c # cs))
      else c # replace_scan old new cs)"
  by pat_completeness auto
termination
  by (relation "measure (\<lambda>(old, new, s). length s)") auto

definition py_replace :: "ustring \<Rightarrow> ustring \<Rightarrow> ustring \<Rightarrow> ustring" where
  "py_replace old new s =
     (if old = [] then new @ concat (map (\<lambda>c. c # new) s) else replace_scan old new s)"

text \<open>
  The clock is an input of the model: \<open>now\<close> is what \<open>datetime.now()\<close> returns, and
  \<open>strftime\<close> is its \<open>strftime("%Y-%m-%d %H:%M:%S")\<close>, every field in decimal and filled with
  zeros to its width (the year to four digits, as the C library writes the years from 1000
  on).
\<close>

record datetime =
  year :: nat
  month :: nat
  day :: nat
  hour :: nat
  minute :: nat
  second :: nat

definition strftime :: "datetime \<Rightarrow> ustring" where
  "strftime d =
     zfill 4 (digits (year d)) @ ustr ''-'' @ zfill 2 (digits (month d)) @ ustr ''-'' @
     zfill 2 (digits (day d)) @ ustr '' '' @ zfill 2 (digits (hour d)) @ ustr '':'' @
     zfill 2 (digits (minute d)) @ ustr '':'' @ zfill 2 (digits (second d))"

record render_result =
  html :: ustring
  missing_placeholders :: "ustring list"

text \<open>
  \<open>render_template\<close>. \<open>missing.remove(x)\<close> removes the first \<open>x\<close> of the list, and
  \<open>sorted(set(missing))\<close> is the list without duplicates in ascending order.
\<close>

definition render_template :: "ustring \<Rightarrow> row \<Rightarrow> datetime \<Rightarrow> render_result" where
  "render_template template_text row now =
     (case sub_placeholders row template_text [] of
        (rendered, missing) \<Rightarrow>
          (let missing1 = (if ustr ''generated_at'' \<in> set missing
                           then remove1 (ustr ''generated_at'') missing else missing);
               rendered1 = py_replace (ustr ''{{generated_at}}'') (strftime now) rendered
           in \<lparr>html = rendered1, missing_placeholders = sort (remdups missing1)\<rparr>))"

section \<open>The batch orchestrator\<close>

text \<open>
  The exceptions the code raises or catches, all of them subclasses of \<open>Exception\<close>.
\<close>

datatype py_exception =
  FileNotFoundError | OSError | ValueError | UnicodeDecodeError | RuntimeError | OtherException

text \<open>
  A path is made from a string or with the operator \<open>/\<close> of \<open>pathlib\<close>.
\<close>

datatype path = Path ustring | Div path ustring

text \<open>
  What the program reads from and does to the world outside it, as the results of its
  calls: the choice of the two input files (\<open>_resolve_or_select_file\<close> with its prompt),
  resolving the output directory (\<open>Path(args.out).expanduser().resolve()\<close>), the tests
  \<open>exists()\<close> and \<open>is_file()\<close> on a path, reading the template, opening and reading the
  CSV file (the header and the rows of the \<open>DictReader\<close>, a missing cell being \<open>None\<close>),
  creating the output directory, importing the PDF library, and writing one PDF (creating
  the parent directory, opening the file and \<open>pisa.CreatePDF\<close>, which returns its error
  count). The call for the record with index \<open>idx\<close> has its own outcome, and the clock its
  own value at each record. Every one of these calls can raise, and a call that raises
  returns \<open>Inl\<close>: \<open>expanduser\<close> raises \<open>RuntimeError\<close> for a home directory that cannot be
  found, and the tests on a path raise \<open>OSError\<close> for a path the system refuses.
\<close>

record world =
  select_csv :: "py_exception + path"
  select_template :: "py_exception + path"
  resolve_out_dir :: "py_exception + path"
  path_exists :: "path \<Rightarrow> py_exception + bool"
  path_is_file :: "path \<Rightarrow> py_exception + bool"
  read_text :: "path \<Rightarrow> py_exception + ustring"
  read_csv :: "path \<Rightarrow> py_exception + (ustring list option \<times> (ustring \<rightharpoonup> ustring option) list)"
  mkdir :: "path \<Rightarrow> py_exception + unit"
  import_pisa :: "py_exception + unit"
  create_pdf :: "nat \<Rightarrow> ustring \<Rightarrow> path \<Rightarrow> py_exception + nat"
  clock :: "nat \<Rightarrow> datetime"

text \<open>
  \<open>load_csv\<close>: \<open>FileNotFoundError\<close> for a path that is no file (\<open>is_file()\<close> is not called
  when \<open>exists()\<close> is false), an exception of the two tests, of opening or of decoding as
  it is, \<open>ValueError\<close> for a file without header, and otherwise the rows, with \<open>None\<close>
  turned into the empty string.
\<close>

definition cleaned :: "(ustring \<rightharpoonup> ustring option) \<Rightarrow> row" where
  "cleaned r = (\<lambda>k. map_option (\<lambda>v. case v of None \<Rightarrow> [] | Some s \<Rightarrow> s) (r k))"

definition load_csv :: "world \<Rightarrow> path \<Rightarrow> py_exception + row list" where
  "load_csv w csv_path =
     (case path_exists w csv_path of
        Inl e \<Rightarrow> Inl e
      | Inr there \<Rightarrow>
     if \<not> there then Inl FileNotFoundError
     else
     (case path_is_file w csv_path of
        Inl e \<Rightarrow> Inl e
      | Inr a_file \<Rightarrow>
     if \<not> a_file then Inl FileNotFoundError
     else
     (case read_csv w csv_path of
        Inl e \<Rightarrow> Inl e
      | Inr (fieldnames, rows) \<Rightarrow>
          (case fieldnames of
             None \<Rightarrow> Inl ValueError
           | Some _ \<Rightarrow> Inr (map cleaned rows)))))"

text \<open>
  \<open>html_to_pdf\<close>: every failure leaves it as a \<open>RuntimeError\<close>, the failed import, an
  exception while writing, and an error count that is not zero.
\<close>

definition html_to_pdf :: "world \<Rightarrow> nat \<Rightarrow> ustring \<Rightarrow> path \<Rightarrow> py_exception + unit" where
  "html_to_pdf w idx markup out_pdf_path =
     (case import_pisa w of
        Inl e \<Rightarrow> Inl RuntimeError
      | Inr _ \<Rightarrow>
          (case create_pdf w idx markup out_pdf_path of
             Inl e \<Rightarrow> Inl RuntimeError
           | Inr err \<Rightarrow> if err \<noteq> 0 then Inl RuntimeError else Inr ()))"

text \<open>
  The state of the loop of \<open>main\<close>: the two variables \<open>failures\<close> and
  \<open>generated_paths\<close>, and the calls of \<open>html_to_pdf\<close> made so far, as the index of the
  record and the output path.
\<close>

record batch =
  failures :: nat
  generated_paths :: "path list"
  pdf_calls :: "(nat \<times> path) list"

definition out_pdf_of :: "path \<Rightarrow> nat \<Rightarrow> row \<Rightarrow> path" where
  "out_pdf_of out_dir idx row = Div out_dir (choose_output_filename row (int idx) @ ustr ''.pdf'')"

text \<open>
  The loop \<open>for idx, row in enumerate(rows, start=1)\<close>, with the variable \<open>out_dir\<close>
  of \<open>main\<close> as a parameter; the messages it prints are left out. The \<open>try\<close> holds the
  call of \<open>html_to_pdf\<close> and the append, and the handler for \<open>Exception\<close> counts the
  failure and goes on.
\<close>

fun batch_loop :: "world \<Rightarrow> path \<Rightarrow> ustring \<Rightarrow> nat \<Rightarrow> row list \<Rightarrow> batch \<Rightarrow> batch" where
  "batch_loop w out_dir template_with_css idx [] st = st"
| "batch_loop w out_dir template_with_css idx (row # rows) st =
     (let render = render_template template_with_css row (clock w idx);
          out_pdf = out_pdf_of out_dir idx row;
          st1 = st\<lparr>pdf_calls := pdf_calls st @ [(idx, out_pdf)]\<rparr>
      in case html_to_pdf w idx (html render) out_pdf of
           Inr _ \<Rightarrow>
             batch_loop w out_dir template_with_css (Suc idx) rows
               (st1\<lparr>generated_paths := generated_paths st1 @ [out_pdf]\<rparr>)
         | Inl e \<Rightarrow>
             batch_loop w out_dir template_with_css (Suc idx) rows
               (st1\<lparr>failures := Suc (failures st1)\<rparr>))"

definition DEFAULT_CSS :: ustring where
  \<open>DEFAULT_CSS = [10] @ concat (map (\<lambda>line. ustr line @ [10])
    [''/* ---- Fonts (Cyrillic-friendly if installed) ---- */'',
    ''@font-face {'',
    ''  font-family: "DocFont";'',
    ''  src: local("Roboto"), local("Roboto Regular"), local("Liberation Sans"), local("Arial");'',
    ''  font-weight: normal;'',
    ''  font-style: normal;'',
    ''}'',
    ''@font-face {'',
    ''  font-family: "DocFont";'',
    ''  src: local("Roboto Bold"), local("Roboto-Bold"), local("Liberation Sans Bold"), local("Arial Bold");'',
    ''  font-weight: bold;'',
    ''  font-style: normal;'',
    ''}'',
    '''',
    ''/* ---- Page / print settings ---- */'',
    ''@page {'',
    ''  size: A4;'',
    ''  margin: 14mm 12mm 16mm 12mm;'',
    ''}'',
    '''',
    ''html, body {'',
    ''  font-family: "DocFont", "Roboto", "Liberation Sans", Arial, sans-serif;'',
    ''  font-size: 12pt;'',
    ''  line-height: 1.35;'',
    ''  color: #111;'',
    ''}'',
    '''',
    ''/* Long strings (emails, ids, urls, etc.) */'',
    ''* {'',
    ''  overflow-wrap: anywhere;'',
    ''  word-break: break-word;'',
    ''}'',
    '''',
    ''h1, h2, h3 {'',
    ''  margin: 0 0 10px 0;'',
    ''}'',
    '''',
    ''.meta {'',
    ''  color: #555;'',
    ''  font-size: 10pt;'',
    ''  margin-bottom: 10px;'',
    ''}'',
    '''',
    ''/* ---- Table styling ---- */'',
    ''table {'',
    ''  width: 100%;'',
    ''  border-collapse: collapse;'',
    ''  margin: 10px 0;'',
    ''}'',
    ''th, td {'',
    ''  border: 1px solid #222;'',
    ''  padding: 8px 10px;'',
    ''  vertical-align: top;'',
    ''}'',
    ''th {'',
    ''  text-align: center;'',
    ''  background: #f3f3f3;'',
    ''}'',
    ''td {'',
    ''  text-align: center;'',
    ''}'',
    '''',
    ''/* Utility */'',
    ''.left { text-align: left; }'',
    ''.right { text-align: right; }'',
    ''.center { text-align: center; }''])\<close>

text \<open>
  \<open>main\<close> after the parsing of the arguments, returning the exit code and the state of the
  loop (the initial state when the loop is not reached), or the exception that leaves it.
  The handler around the choice of the files catches \<open>FileNotFoundError\<close> only, so another
  exception there leaves \<open>main\<close>. Resolving the output directory and the three tests of the
  input validation stand in no \<open>try\<close>, so an exception there leaves \<open>main\<close> too. The
  handlers around reading the template, loading the CSV file and creating the output
  directory catch every \<open>Exception\<close>.
\<close>

record run =
  exit_code :: int
  final :: batch

definition no_batch :: batch where
  "no_batch = \<lparr>failures = 0, generated_paths = [], pdf_calls = []\<rparr>"

definition main :: "world \<Rightarrow> py_exception + run" where
  "main w =
     (case select_csv w of
        Inl e \<Rightarrow> if e = FileNotFoundError then Inr \<lparr>exit_code = 2, final = no_batch\<rparr> else Inl e
      | Inr csv_path \<Rightarrow>
     (case select_template w of
        Inl e \<Rightarrow> if e = FileNotFoundError then Inr \<lparr>exit_code = 2, final = no_batch\<rparr> else Inl e
      | Inr template_path \<Rightarrow>
     (case resolve_out_dir w of
        Inl e \<Rightarrow> Inl e
      | Inr out_dir \<Rightarrow>
     (case path_exists w csv_path of
        Inl e \<Rightarrow> Inl e
      | Inr csv_there \<Rightarrow>
     if \<not> csv_there then Inr \<lparr>exit_code = 2, final = no_batch\<rparr>
     else
     (case path_exists w template_path of
        Inl e \<Rightarrow> Inl e
      | Inr template_there \<Rightarrow>
     if \<not> template_there then Inr \<lparr>exit_code = 2, final = no_batch\<rparr>
     else
     (case path_is_file w template_path of
        Inl e \<Rightarrow> Inl e
      | Inr template_a_file \<Rightarrow>
     if \<not> template_a_file then Inr \<lparr>exit_code = 2, final = no_batch\<rparr>
     else
     (case read_text w template_path of
        Inl e \<Rightarrow> Inr \<lparr>exit_code = 2, final = no_batch\<rparr>
      | Inr template_text \<Rightarrow>
     (case load_csv w csv_path of
        Inl e \<Rightarrow> Inr \<lparr>exit_code = 2, final = no_batch\<rparr>
      | Inr rows \<Rightarrow>
     (case mkdir w out_dir of
        Inl e \<Rightarrow> Inr \<lparr>exit_code = 2, final = no_batch\<rparr>
      | Inr _ \<Rightarrow>
          (let template_with_css = inject_css_into_html template_text DEFAULT_CSS;
               st = batch_loop w out_dir template_with_css 1 rows no_batch
           in Inr \<lparr>exit_code = (if failures st = 0 then 0 else 1), final = st\<rparr>))))))))))"

text \<open>
  The status of the process, from \<open>raise SystemExit(main())\<close>: the code \<open>main\<close> returns,
  and 1 when an exception leaves \<open>main\<close>, which nothing catches and Python reports with
  a traceback and the status 1.
\<close>

definition exit_status :: "py_exception + run \<Rightarrow> int" where
  "exit_status result = (case result of Inl e \<Rightarrow> 1 | Inr r \<Rightarrow> exit_code r)"

section \<open>The output names as the specification words them\<close>

text \<open>
  The sanitization step by step as the specification has it: trim the surrounding
  whitespace, replace each reserved character with an underscore, strip the trailing dots
  and spaces, and take the default name when nothing is left.
\<close>

definition sanitize_claimed :: "ustring \<Rightarrow> ustring" where
  "sanitize_claimed name =
     (let t = py_strip name;
          u = map (\<lambda>c. if is_reserved c then 95 else c) t;
          v = py_rstrip (\<lambda>c. c \<in> set (ustr ''. '')) u
      in if v = [] then ustr ''document'' else v)"

text \<open>
  Replacing runs, said without the scan of a pattern: a reserved character that does not
  follow a reserved character becomes an underscore, a reserved character that follows one
  is dropped, every other character stays. \<open>prev\<close> tells whether the character before
  was reserved.
\<close>

fun replace_runs :: "bool \<Rightarrow> ustring \<Rightarrow> ustring" where
  "replace_runs prev [] = []"
| "replace_runs prev (c # cs) =
     (if is_reserved c then (if prev then [] else [95]) @ replace_runs True cs
      else c # replace_runs False cs)"





section \<open>The markers of the style composer as the specification words them\<close>





section \<open>The placeholders as the specification words them\<close>

text \<open>
  A placeholder token for the name \<open>key\<close>: two opening braces, optional whitespace, the
  name, which is a non-empty string of letters, digits and underscores, optional
  whitespace, two closing braces.
\<close>

definition placeholder_token :: "ustring \<Rightarrow> ustring \<Rightarrow> bool" where
  "placeholder_token tok key \<longleftrightarrow>
     (\<exists>ws1 ws2. tok = ustr ''{{'' @ ws1 @ key @ ws2 @ ustr ''}}'' \<and> list_all is_space ws1 \<and>
        key \<noteq> [] \<and> list_all is_word key \<and> list_all is_space ws2)"

definition starts_with_placeholder :: "ustring \<Rightarrow> bool" where
  "starts_with_placeholder s \<longleftrightarrow> (\<exists>tok key rest. placeholder_token tok key \<and> s = tok @ rest)"

text \<open>
  The non-overlapping occurrences from left to right: a template splits into segments, a
  token wherever one starts at the current position, and otherwise the single character
  there.
\<close>

datatype segment = Lit nat | Tok ustring

inductive parses :: "ustring \<Rightarrow> segment list \<Rightarrow> bool" where
  parses_Nil: "parses [] []"
| parses_Tok: "placeholder_token tok key \<Longrightarrow> parses rest segs \<Longrightarrow> parses (tok @ rest) (Tok key # segs)"
| parses_Lit: "\<not> starts_with_placeholder (c # cs) \<Longrightarrow> parses cs segs \<Longrightarrow> parses (c # cs) (Lit c # segs)"

text \<open>
  What a segment becomes (the record's value for a token whose name is a key of the record,
  else the empty string), and the name it leaves unresolved.
\<close>

fun resolve :: "row \<Rightarrow> segment \<Rightarrow> ustring" where
  "resolve row (Lit c) = [c]"
| "resolve row (Tok key) = (case row key of None \<Rightarrow> [] | Some v \<Rightarrow> v)"

fun unresolved :: "row \<Rightarrow> segment \<Rightarrow> ustring list" where
  "unresolved row (Lit c) = []"
| "unresolved row (Tok key) = (if row key = None then [key] else [])"

definition substituted :: "row \<Rightarrow> segment list \<Rightarrow> ustring" where
  "substituted row segs = concat (map (resolve row) segs)"

section \<open>The run as the specification words it\<close>

text \<open>
  The render-to-document call for the record \<open>row\<close> with index \<open>idx\<close> succeeds.
\<close>

definition succeeded :: "world \<Rightarrow> path \<Rightarrow> ustring \<Rightarrow> nat \<Rightarrow> row \<Rightarrow> bool" where
  "succeeded w out_dir template_with_css idx row \<longleftrightarrow>
     html_to_pdf w idx (html (render_template template_with_css row (clock w idx)))
       (out_pdf_of out_dir idx row) = Inr ()"

text \<open>
  A run of three records in which the PDF of the second one cannot be written; the same
  run with a template that is not UTF-8; the same run with an output directory
  \<open>~no_such_user/out\<close>, for which \<open>expanduser\<close> raises \<open>RuntimeError\<close>; the same run
  with a template path on which \<open>exists()\<close> raises \<open>OSError\<close>, as it does for a name that
  is too long; and the same run with a CSV path \<open>~no_such_user/in.csv\<close>, for which
  \<open>expanduser\<close> raises inside \<open>_resolve_or_select_file\<close>.
\<close>

definition scenario_rows :: "(ustring \<rightharpoonup> ustring option) list" where
  "scenario_rows =
     [map_of [(ustr ''name'', Some (ustr ''a''))],
      map_of [(ustr ''name'', Some (ustr ''b''))],
      map_of [(ustr ''note'', None)]]"

definition scenario_world :: world where
  "scenario_world =
     \<lparr>select_csv = Inr (Path (ustr ''in.csv'')),
      select_template = Inr (Path (ustr ''t.html'')),
      resolve_out_dir = Inr (Path (ustr ''output'')),
      path_exists = (\<lambda>p. Inr True),
      path_is_file = (\<lambda>p. Inr True),
      read_text = (\<lambda>p. Inr (ustr ''<p>{{name}}</p>'')),
      read_csv = (\<lambda>p. Inr (Some [ustr ''name''], scenario_rows)),
      mkdir = (\<lambda>p. Inr ()),
      import_pisa = Inr (),
      create_pdf = (\<lambda>idx markup p. if idx = 2 then Inl OtherException else Inr 0),
      clock = (\<lambda>idx. \<lparr>year = 2026, month = 11, day = 3, hour = 14, minute = 32, second = 0\<rparr>)\<rparr>"

definition undecodable_world :: world where
  "undecodable_world = scenario_world\<lparr>read_text := (\<lambda>p. Inl UnicodeDecodeError)\<rparr>"

definition unresolvable_out_world :: world where
  "unresolvable_out_world = scenario_world\<lparr>resolve_out_dir := Inl RuntimeError\<rparr>"

definition untestable_template_world :: world where
  "untestable_template_world =
     scenario_world\<lparr>path_exists := (\<lambda>p. if p = Path (ustr ''t.html'') then Inl OSError else Inr True)\<rparr>"

definition unresolvable_csv_world :: world where
  "unresolvable_csv_world = scenario_world\<lparr>select_csv := Inl RuntimeError\<rparr>"

section \<open>Sanitizing a file name\<close>

lemma sub_reserved_runs:
  "replace_runs False cs = sub_reserved cs \<and> replace_runs True cs = sub_reserved (dropWhile is_reserved cs)"
  by (induction cs) auto

lemma sub_reserved_clean: "c \<in> set (sub_reserved s) \<Longrightarrow> \<not> is_reserved c"
  by (induction s rule: sub_reserved.induct) (auto simp: is_reserved_def split: if_splits)

lemma set_py_rstrip: "set (py_rstrip P s) \<subseteq> set s"
  unfolding py_rstrip_def using set_dropWhileD[of _ P "rev s"] by auto

lemma set_py_strip: "set (py_strip s) \<subseteq> set s"
  unfolding py_strip_def py_lstrip_def using set_py_rstrip[of is_space "dropWhile is_space s"] set_dropWhileD[of _ is_space s] by auto





lemma py_rstrip_Nil: "py_rstrip P [] = []"
  by (simp add: py_rstrip_def)

lemma py_strip_Nil: "py_strip [] = []"
  by (simp add: py_strip_def py_rstrip_def py_lstrip_def)




lemma sanitize_runs:
  "sanitize_filename s =
     (let v = py_strip (py_rstrip (\<lambda>c. c \<in> set (ustr ''. '')) (replace_runs False (py_strip s)))
      in if v = [] then ustr ''document'' else v)"
proof (cases "py_strip s = []")
  case True
  then show ?thesis
    by (simp add: sanitize_filename_def py_strip_Nil py_rstrip_Nil)
next
  case False
  then show ?thesis
    by (simp add: sanitize_filename_def sub_reserved_runs Let_def)
qed

lemma sanitize_clean: "c \<in> set (sanitize_filename s) \<Longrightarrow> \<not> is_reserved c"
proof -
  assume c: "c \<in> set (sanitize_filename s)"
  show ?thesis
  proof (cases "sanitize_filename s = ustr ''document''")
    case True
    with c show ?thesis by (auto simp: is_reserved_def)
  next
    case False
    then have "sanitize_filename s = py_strip (py_rstrip (\<lambda>c. c \<in> set (ustr ''. '')) (sub_reserved (py_strip s)))"
      by (auto simp: sanitize_filename_def Let_def split: if_splits)
    with c have "c \<in> set (sub_reserved (py_strip s))"
      using set_py_strip set_py_rstrip by (metis subsetD)
    then show ?thesis by (rule sub_reserved_clean)
  qed
qed

section \<open>Choosing the output name\<close>






lemma replicate_num: "replicate (numeral k) x = x # replicate (pred_numeral k) x"
  by (simp add: numeral_eq_Suc)

lemmas eval_defs = replicate_num sanitize_filename_def py_strip_def py_rstrip_def py_lstrip_def is_space_def
  is_reserved_def get_or_empty_def name_keys_def fmt_04d_def zfill_def digits.simps

text \<open>
  Claim C7, as amended. For every input string, \<open>_sanitize_filename\<close> trims the surrounding
  whitespace, replaces each maximal run of reserved characters with one underscore, strips
  the trailing dots and spaces and then the surrounding whitespace once more, and returns
  the default name \<open>document\<close> when nothing is left. The result never contains a
  reserved character, and \<open>a/b:c\<close> sanitizes to \<open>a_b_c\<close>.
\<close>

theorem sanitize_filename_runs:
  "sanitize_filename s =
     (let v = py_strip (py_rstrip (\<lambda>c. c \<in> set (ustr ''. '')) (replace_runs False (py_strip s)))
      in if v = [] then ustr ''document'' else v)
   \<and> (\<forall>c \<in> set (sanitize_filename s). \<not> is_reserved c)
   \<and> sanitize_filename (ustr ''a/b:c'') = ustr ''a_b_c''"
proof -
  have "sanitize_filename (ustr ''a/b:c'') = ustr ''a_b_c''"
    by (simp add: eval_defs)
  then show ?thesis
    using sanitize_runs[of s] sanitize_clean[of _ s] by blast
qed

text \<open>The theorem at the input \<open>" a<>b?. "\<close>.\<close>

theorem sanitize_filename_runs_witness:
  "sanitize_filename (ustr '' a<>b?. '') = ustr ''a_b_''
   \<and> list_all (\<lambda>c. \<not> is_reserved c) (sanitize_filename (ustr '' a<>b?. ''))"
proof -
  have "replace_runs False (py_strip (ustr '' a<>b?. '')) = ustr ''a_b_.''"
    by (simp add: eval_defs)
  then have "sanitize_filename (ustr '' a<>b?. '') = ustr ''a_b_''"
    using sanitize_filename_runs[of "ustr '' a<>b?. ''"]
    by (simp add: py_strip_def py_rstrip_def py_lstrip_def is_space_def)
  moreover have "list_all (\<lambda>c. \<not> is_reserved c) (sanitize_filename (ustr '' a<>b?. ''))"
    using conjunct1[OF conjunct2[OF sanitize_filename_runs[of "ustr '' a<>b?. ''"]]]
    by (simp only: list_all_iff)
  ultimately show ?thesis by simp
qed

text \<open>
  Claim C7 as stated fails where two reserved characters are adjacent: the two slashes of
  \<open>a//b\<close> become one underscore, not one underscore each.
\<close>

theorem sanitize_each_character_counterexample:
  "sanitize_filename (ustr ''a//b'') = ustr ''a_b'' \<and> sanitize_claimed (ustr ''a//b'') = ustr ''a__b''"
  by (simp add: eval_defs sanitize_claimed_def)




section \<open>Injecting the stylesheet\<close>

















lemmas style_defs = style_block_def match_close_head_def match_open_html_def
  starts_with_ci_def ascii_lower_def is_space_def

lemma inject_inserts:
  "\<exists>i pre post. inject_css_into_html d css = take i d @ pre @ style_block css @ post @ drop i d"
proof (cases "re_search match_close_head d")
  case (Some p)
  obtain i e where "p = (i, e)" by (cases p)
  with Some have "inject_css_into_html d css = take i d @ [] @ style_block css @ [] @ drop i d"
    by (simp add: inject_css_into_html_def)
  then show ?thesis by blast
next
  case None
  show ?thesis
  proof (cases "re_search match_open_html d")
    case (Some p)
    obtain a i where "p = (a, i)" by (cases p)
    with Some None have "inject_css_into_html d css =
        take i d @ ([10] @ ustr ''<head>'' @ [10]) @ style_block css @ (ustr ''</head>'' @ [10]) @ drop i d"
      by (simp add: inject_css_into_html_def)
    then show ?thesis by blast
  next
    case n: None
    with None have "inject_css_into_html d css = take 0 d @ [] @ style_block css @ [] @ drop 0 d"
      by (simp add: inject_css_into_html_def)
    then show ?thesis by blast
  qed
qed

lemma inject_length:
  "length d + length (style_block css) \<le> length (inject_css_into_html d css)"
proof -
  obtain i pre post where "inject_css_into_html d css = take i d @ pre @ style_block css @ post @ drop i d"
    using inject_inserts by blast
  then have "length (inject_css_into_html d css) =
      length (take i d) + length (drop i d) + length pre + length post + length (style_block css)"
    by simp
  then show ?thesis by simp
qed



text \<open>
  Claim C6, as amended. The style composer is not idempotent: whatever the document
  already holds, an application inserts one more copy of the style block, so applying it
  twice gives a document that holds the block once more than applying it once, and that is
  longer than the input by at least twice the length of the block.
\<close>

theorem inject_css_duplicates:
  "(\<exists>i pre post. inject_css_into_html (inject_css_into_html doc css) css =
       take i (inject_css_into_html doc css) @ pre @ style_block css @ post @
       drop i (inject_css_into_html doc css))
   \<and> length doc + 2 * length (style_block css) \<le> length (inject_css_into_html (inject_css_into_html doc css) css)
   \<and> inject_css_into_html (inject_css_into_html doc css) css \<noteq> inject_css_into_html doc css"
proof -
  let ?d = "inject_css_into_html doc css"
  have a: "length ?d + length (style_block css) \<le> length (inject_css_into_html ?d css)"
    by (rule inject_length)
  have b: "length doc + length (style_block css) \<le> length ?d" by (rule inject_length)
  have "0 < length (style_block css)" by (simp add: style_block_def)
  with a have "length (inject_css_into_html ?d css) \<noteq> length ?d" by linarith
  then have "inject_css_into_html ?d css \<noteq> ?d" by metis
  then show ?thesis using a b inject_inserts[of ?d css] by simp
qed

text \<open>The theorem at the fragment \<open><p>\<close>.\<close>

theorem inject_css_duplicates_witness:
  "inject_css_into_html (inject_css_into_html (ustr ''<p>'') (ustr ''x'')) (ustr ''x'')
     \<noteq> inject_css_into_html (ustr ''<p>'') (ustr ''x'')"
  using inject_css_duplicates[of "ustr ''<p>''" "ustr ''x''"] by blast

text \<open>
  Claim C6 as stated fails: the second application to \<open><head></head>\<close> finds the closing
  head marker again and puts a second style block before it.
\<close>

theorem inject_css_idempotent_counterexample:
  "inject_css_into_html (inject_css_into_html (ustr ''<head></head>'') (ustr ''x'')) (ustr ''x'')
     = ustr ''<head>'' @ style_block (ustr ''x'') @ style_block (ustr ''x'') @ ustr ''</head>''
   \<and> inject_css_into_html (ustr ''<head></head>'') (ustr ''x'')
     = ustr ''<head>'' @ style_block (ustr ''x'') @ ustr ''</head>''
   \<and> inject_css_into_html (inject_css_into_html (ustr ''<head></head>'') (ustr ''x'')) (ustr ''x'')
     \<noteq> inject_css_into_html (ustr ''<head></head>'') (ustr ''x'')"
  by (simp add: inject_css_into_html_def style_defs)

section \<open>Rendering a template\<close>

lemma run_split:
  assumes "list_all P xs" and "ys = [] \<or> \<not> P (hd ys)"
  shows "takeWhile P (xs @ ys) = xs" and "dropWhile P (xs @ ys) = ys"
proof -
  have a: "\<forall>x\<in>set xs. P x" using assms(1) by (simp add: list_all_iff)
  have "takeWhile P ys = []" using assms(2) by (cases ys) auto
  then show "takeWhile P (xs @ ys) = xs" using a by simp
  have "dropWhile P ys = ys" using assms(2) by (cases ys) auto
  then show "dropWhile P (xs @ ys) = ys" using a by simp
qed

lemma word_not_space: "is_word c \<Longrightarrow> \<not> is_space c"
  by (auto simp: is_word_def is_space_def)

lemma match_placeholder_token:
  assumes "placeholder_token tok key"
  shows "match_placeholder (tok @ rest) = Some (key, rest)"
proof -
  from assms obtain ws1 ws2 where tok: "tok = ustr ''{{'' @ ws1 @ key @ ws2 @ ustr ''}}''"
    and ws1: "list_all is_space ws1" and key: "key \<noteq> []" "list_all is_word key"
    and ws2: "list_all is_space ws2"
    by (auto simp: placeholder_token_def)
  let ?s = "tok @ rest"
  let ?t3 = "[125, 125] @ rest"
  let ?t2 = "ws2 @ ?t3"
  let ?t1 = "key @ ?t2"
  have s: "?s = [123, 123] @ ws1 @ ?t1" using tok by simp
  have d2: "drop 2 ?s = ws1 @ ?t1" and t2: "take 2 ?s = ustr ''{{''" using s by simp_all
  have "is_word (hd key)" using key by (cases key) (auto simp: list_all_iff)
  then have "\<not> is_space (hd ?t1)" using key word_not_space by (cases key) auto
  then have r: "dropWhile is_space (drop 2 ?s) = ?t1"
    using run_split(2)[OF ws1, of ?t1] d2 by simp
  have h2: "\<not> is_word (hd ?t2)"
    using ws2 word_not_space by (cases ws2) (auto simp: list_all_iff is_word_def)
  then have k: "takeWhile is_word ?t1 = key" and r2: "dropWhile is_word ?t1 = ?t2"
    using run_split[OF key(2), of ?t2] by simp_all
  have "\<not> is_space (hd ?t3)" by (simp add: is_space_def)
  then have r3: "dropWhile is_space ?t2 = ?t3"
    using run_split(2)[OF ws2, of ?t3] by simp
  show ?thesis
    unfolding match_placeholder_def t2 r k r2 r3 Let_def using key(1) by simp
qed

lemma match_placeholder_Some:
  assumes "match_placeholder s = Some (key, rest)"
  shows "\<exists>tok. placeholder_token tok key \<and> s = tok @ rest"
proof -
  let ?r = "dropWhile is_space (drop 2 s)"
  let ?r' = "dropWhile is_space (dropWhile is_word ?r)"
  from assms have a: "take 2 s = ustr ''{{''" and k: "key = takeWhile is_word ?r" "key \<noteq> []"
    and b: "take 2 ?r' = ustr ''}}''" and rest: "rest = drop 2 ?r'"
    by (auto simp: match_placeholder_def Let_def split: if_splits)
  let ?ws1 = "takeWhile is_space (drop 2 s)"
  let ?ws2 = "takeWhile is_space (dropWhile is_word ?r)"
  have "s = take 2 s @ drop 2 s" by simp
  also have "drop 2 s = ?ws1 @ ?r" by simp
  also have "?r = key @ dropWhile is_word ?r" using k by simp
  also have "dropWhile is_word ?r = ?ws2 @ ?r'" by simp
  also have "?r' = take 2 ?r' @ drop 2 ?r'" by simp
  finally have "s = (ustr ''{{'' @ ?ws1 @ key @ ?ws2 @ ustr ''}}'') @ rest"
    using a b rest by simp
  moreover have "list_all is_space ?ws1" "list_all is_space ?ws2" "list_all is_word key"
    using k by (auto simp: list_all_iff dest: set_takeWhileD)
  ultimately show ?thesis using k(2) unfolding placeholder_token_def by blast
qed

lemma match_placeholder_None:
  "match_placeholder s = None \<longleftrightarrow> \<not> starts_with_placeholder s"
proof
  assume n: "match_placeholder s = None"
  show "\<not> starts_with_placeholder s"
  proof
    assume "starts_with_placeholder s"
    then obtain tok key rest where "placeholder_token tok key" "s = tok @ rest"
      by (auto simp: starts_with_placeholder_def)
    then have "match_placeholder s = Some (key, rest)" using match_placeholder_token by simp
    with n show False by simp
  qed
next
  assume n: "\<not> starts_with_placeholder s"
  show "match_placeholder s = None"
  proof (cases "match_placeholder s")
    case (Some p)
    obtain key rest where "p = (key, rest)" by (cases p)
    with Some match_placeholder_Some[of s key rest] n show ?thesis
      by (auto simp: starts_with_placeholder_def)
  qed simp
qed

lemma placeholder_token_length: "placeholder_token tok key \<Longrightarrow> 5 \<le> length tok"
  by (cases key) (auto simp: placeholder_token_def)

lemma sub_placeholders_parses:
  "parses t segs \<Longrightarrow>
     sub_placeholders row t missing = (substituted row segs, missing @ concat (map (unresolved row) segs))"
proof (induction arbitrary: missing rule: parses.induct)
  case parses_Nil
  then show ?case by (simp add: substituted_def)
next
  case (parses_Tok tok key rest segs)
  from placeholder_token_length[OF parses_Tok.hyps(1)] obtain c cs where cs: "tok @ rest = c # cs"
    by (cases tok) auto
  have m: "match_placeholder (c # cs) = Some (key, rest)"
    using match_placeholder_token[OF parses_Tok.hyps(1), of rest] cs by simp
  show ?case
    unfolding cs using m parses_Tok.IH by (simp add: substituted_def split: option.splits)
next
  case (parses_Lit c cs segs)
  then have "match_placeholder (c # cs) = None" using match_placeholder_None by simp
  then show ?case using parses_Lit.IH by (simp add: substituted_def)
qed

lemma parses_total: "\<exists>segs. parses t segs"
proof (induction t rule: length_induct)
  case (1 t)
  show ?case
  proof (cases t)
    case Nil
    then show ?thesis using parses_Nil by blast
  next
    case (Cons c cs)
    show ?thesis
    proof (cases "match_placeholder t")
      case None
      then have "\<not> starts_with_placeholder (c # cs)" using match_placeholder_None Cons by simp
      moreover obtain segs where "parses cs segs" using 1 Cons by auto
      ultimately show ?thesis using parses_Lit Cons by blast
    next
      case (Some p)
      obtain key rest where p: "p = (key, rest)" by (cases p)
      with Some obtain tok where tok: "placeholder_token tok key" "t = tok @ rest"
        using match_placeholder_Some by blast
      then have "length rest < length t" using placeholder_token_length[of tok key] by auto
      then obtain segs where "parses rest segs" using 1 by blast
      then show ?thesis using tok parses_Tok by blast
    qed
  qed
qed

lemma replace_scan_absent: "\<not> sublist old s \<Longrightarrow> replace_scan old new s = s"
proof (induction s)
  case Nil
  then show ?case by simp
next
  case (Cons c cs)
  have "\<not> sublist old cs" using Cons.prems by (auto simp: sublist_Cons_right)
  moreover have "take (length old) (c # cs) \<noteq> old"
  proof
    assume "take (length old) (c # cs) = old"
    then have "prefix old (c # cs)" by (metis take_is_prefix)
    then show False using Cons.prems by auto
  qed
  ultimately show ?case using Cons.IH by simp
qed

lemma py_replace_absent: "old \<noteq> [] \<Longrightarrow> \<not> sublist old s \<Longrightarrow> py_replace old new s = s"
  by (simp add: py_replace_def replace_scan_absent)

lemma render_template_html:
  "parses t segs \<Longrightarrow>
     html (render_template t row now) =
       py_replace (ustr ''{{generated_at}}'') (strftime now) (substituted row segs)"
  by (simp add: render_template_def sub_placeholders_parses[of t segs row "[]"] Let_def)

lemma render_template_missing:
  "parses t segs \<Longrightarrow>
     missing_placeholders (render_template t row now) =
       sort (remdups (remove1 (ustr ''generated_at'') (concat (map (unresolved row) segs))))"
  by (simp add: render_template_def sub_placeholders_parses[of t segs row "[]"] Let_def remove1_idem)

lemma unresolved_names: "key \<in> set (concat (map (unresolved row) segs)) \<longleftrightarrow> Tok key \<in> set segs \<and> row key = None"
proof (induction segs)
  case Nil
  then show ?case by simp
next
  case (Cons seg segs)
  then show ?case by (cases seg) auto
qed

lemmas render_defs = render_template_def match_placeholder_def is_space_def is_word_def
  py_replace_def strftime_def zfill_def digits.simps replicate_num

lemma parses_TokI:
  "match_placeholder s = Some (key, rest) \<Longrightarrow> parses rest segs \<Longrightarrow> parses s (Tok key # segs)"
  using match_placeholder_Some[of s key rest] parses_Tok by blast

lemma parses_LitI:
  "match_placeholder (c # cs) = None \<Longrightarrow> parses cs segs \<Longrightarrow> parses (c # cs) (Lit c # segs)"
  using match_placeholder_None[of "c # cs"] parses_Lit by blast

lemmas match_defs = match_placeholder_def is_space_def is_word_def

text \<open>
  Claim C1, as amended. Every template splits into the non-overlapping occurrences of the
  placeholder pattern, from left to right, and the characters between them. The returned
  list of unresolved names is sorted and has no duplicates; a name other than the reserved
  \<open>generated_at\<close> is in it exactly when it is the name of an occurrence and no key of the
  record, and no name is in it that is a key of the record or the name of no occurrence.
  When no occurrence has the reserved name without the record having that key, the output
  is the template with each occurrence replaced by the record's value for its name if the
  name is a key of the record and by the empty string otherwise, with every literal
  \<open>{{generated_at}}\<close> of that text then replaced by the timestamp, and the list holds
  exactly the names of the occurrences that are no keys of the record. For the template
  \<open>{{missing}}\<close> and a record without that key the output is empty and the list is
  \<open>["missing"]\<close>.
\<close>

theorem render_template_substitutes:
  "(\<exists>segs. parses t segs)
   \<and> (\<forall>segs. parses t segs \<longrightarrow>
        sorted (missing_placeholders (render_template t row now))
        \<and> distinct (missing_placeholders (render_template t row now))
        \<and> (\<forall>key. key \<noteq> ustr ''generated_at'' \<longrightarrow>
              (key \<in> set (missing_placeholders (render_template t row now))
                 \<longleftrightarrow> Tok key \<in> set segs \<and> row key = None))
        \<and> (\<forall>key \<in> set (missing_placeholders (render_template t row now)).
              Tok key \<in> set segs \<and> row key = None)
        \<and> ((row (ustr ''generated_at'') = None \<longrightarrow> Tok (ustr ''generated_at'') \<notin> set segs) \<longrightarrow>
              html (render_template t row now) =
                py_replace (ustr ''{{generated_at}}'') (strftime now) (substituted row segs)
              \<and> missing_placeholders (render_template t row now) =
                sort (remdups (concat (map (unresolved row) segs)))))
   \<and> (row (ustr ''missing'') = None \<longrightarrow>
        render_template (ustr ''{{missing}}'') row now =
          \<lparr>html = [], missing_placeholders = [ustr ''missing'']\<rparr>)"
proof (intro conjI allI impI)
  show "\<exists>segs. parses t segs" by (rule parses_total)
next
  fix segs assume p: "parses t segs"
  let ?names = "concat (map (unresolved row) segs)"
  let ?mp = "missing_placeholders (render_template t row now)"
  have mp: "?mp = sort (remdups (remove1 (ustr ''generated_at'') ?names))"
    using p by (rule render_template_missing)
  show "sorted ?mp" unfolding mp by simp
  show "distinct ?mp" unfolding mp by simp
  have s: "set ?mp \<subseteq> set ?names" unfolding mp using set_remove1_subset[of _ ?names] by auto
  show "\<forall>key \<in> set ?mp. Tok key \<in> set segs \<and> row key = None"
  proof
    fix key assume "key \<in> set ?mp"
    then have "key \<in> set ?names" using s by auto
    then show "Tok key \<in> set segs \<and> row key = None" by (simp only: unresolved_names)
  qed
  {
    fix key :: ustring assume k: "key \<noteq> ustr ''generated_at''"
    have "key \<in> set ?mp \<longleftrightarrow> key \<in> set ?names" unfolding mp using k by simp
    then show "key \<in> set ?mp \<longleftrightarrow> Tok key \<in> set segs \<and> row key = None"
      by (simp only: unresolved_names)
  }
  {
    assume g: "row (ustr ''generated_at'') = None \<longrightarrow> Tok (ustr ''generated_at'') \<notin> set segs"
    show "html (render_template t row now) =
        py_replace (ustr ''{{generated_at}}'') (strftime now) (substituted row segs)"
      using p by (rule render_template_html)
    have n: "\<not> (Tok (ustr ''generated_at'') \<in> set segs \<and> row (ustr ''generated_at'') = None)"
      using g by auto
    have "ustr ''generated_at'' \<notin> set ?names" unfolding unresolved_names by (rule n)
    then show "?mp = sort (remdups ?names)" unfolding mp by (simp add: remove1_idem)
  }
next
  assume "row (ustr ''missing'') = None"
  then show "render_template (ustr ''{{missing}}'') row now =
          \<lparr>html = [], missing_placeholders = [ustr ''missing'']\<rparr>"
    by (simp add: render_defs)
qed

text \<open>
  The theorem at a template of three occurrences, two of them with values that hold
  placeholder syntax themselves and one with no key in the record, and at the template
  \<open>{{missing}}\<close>.
\<close>

theorem render_template_substitutes_witness:
  "render_template (ustr ''{{a}}-{{ b }}{{c}}!'')
       (map_of [(ustr ''a'', ustr ''{{b}}''), (ustr ''b'', ustr ''{{ x }}'')])
       \<lparr>year = 2026, month = 11, day = 3, hour = 14, minute = 32, second = 0\<rparr>
     = \<lparr>html = ustr ''{{b}}-{{ x }}!'', missing_placeholders = [ustr ''c'']\<rparr>
   \<and> render_template (ustr ''{{missing}}'')
       (map_of [(ustr ''a'', ustr ''{{b}}''), (ustr ''b'', ustr ''{{ x }}'')])
       \<lparr>year = 2026, month = 11, day = 3, hour = 14, minute = 32, second = 0\<rparr>
     = \<lparr>html = [], missing_placeholders = [ustr ''missing'']\<rparr>"
proof -
  let ?t = "ustr ''{{a}}-{{ b }}{{c}}!''"
  let ?row = "map_of [(ustr ''a'', ustr ''{{b}}''), (ustr ''b'', ustr ''{{ x }}'')]"
  let ?now = "\<lparr>year = 2026, month = 11, day = 3, hour = 14, minute = 32, second = 0\<rparr>"
  let ?segs = "[Tok (ustr ''a''), Lit 45, Tok (ustr ''b''), Tok (ustr ''c''), Lit 33]"
  have p: "parses ?t ?segs"
    by (simp, (rule parses_TokI parses_LitI parses_Nil, simp add: match_defs)+, rule parses_Nil)
  have g: "?row (ustr ''generated_at'') = None \<longrightarrow> Tok (ustr ''generated_at'') \<notin> set ?segs"
    by simp
  note inst = render_template_substitutes[of ?t ?row ?now]
  note at_segs = inst[THEN conjunct2, THEN conjunct1, THEN spec, THEN mp, OF p]
  note hm = at_segs[THEN conjunct2, THEN conjunct2, THEN conjunct2, THEN conjunct2, THEN mp, OF g]
  have 1: "html (render_template ?t ?row ?now) = ustr ''{{b}}-{{ x }}!''"
    unfolding hm[THEN conjunct1] by (simp add: substituted_def py_replace_def)
  have 2: "missing_placeholders (render_template ?t ?row ?now) = [ustr ''c'']"
    unfolding hm[THEN conjunct2] by simp
  have 3: "render_template ?t ?row ?now =
      \<lparr>html = ustr ''{{b}}-{{ x }}!'', missing_placeholders = [ustr ''c'']\<rparr>"
    using 1 2 by (cases "render_template ?t ?row ?now") simp
  have m: "?row (ustr ''missing'') = None" by simp
  note 4 = render_template_substitutes[of "ustr ''{{missing}}''" ?row ?now,
      THEN conjunct2, THEN conjunct2, THEN mp, OF m]
  show ?thesis using 3 4 by (rule conjI)
qed

text \<open>
  Claim C1 as stated fails on the reserved name: the template \<open>{{generated_at}}\<close> is one
  occurrence whose name is no key of the empty record, yet the returned list of unresolved
  names is empty.
\<close>

theorem reserved_name_not_recorded_counterexample:
  "parses (ustr ''{{generated_at}}'') [Tok (ustr ''generated_at'')]
   \<and> concat (map (unresolved (map_of [])) [Tok (ustr ''generated_at'')]) = [ustr ''generated_at'']
   \<and> render_template (ustr ''{{generated_at}}'') (map_of [])
        \<lparr>year = 2026, month = 11, day = 3, hour = 14, minute = 32, second = 0\<rparr>
      = \<lparr>html = [], missing_placeholders = []\<rparr>"
proof -
  have "parses (ustr ''{{generated_at}}'') [Tok (ustr ''generated_at'')]"
    by (simp, (rule parses_TokI parses_LitI parses_Nil, simp add: match_defs)+, rule parses_Nil)
  then show ?thesis by (simp add: render_defs)
qed

text \<open>
  Claim C2 at its own example. The placeholder pass replaces \<open>{{generated_at}}\<close> with the
  empty string before the second pass looks for it, so for every clock value the output of
  \<open>Hello {{name}}, generated {{generated_at}}\<close> with the record \<open>{name: Ann}\<close> ends
  after \<open>generated \<close> with no timestamp; and with two such placeholders the name
  \<open>generated_at\<close> is reported unresolved, since only its first entry is removed.
\<close>

theorem timestamp_placeholder_erased:
  "render_template (ustr ''Hello {{name}}, generated {{generated_at}}'')
       (map_of [(ustr ''name'', ustr ''Ann'')]) now
     = \<lparr>html = ustr ''Hello Ann, generated '', missing_placeholders = []\<rparr>
   \<and> missing_placeholders
       (render_template (ustr ''{{generated_at}} {{generated_at}}'') (map_of []) now)
     = [ustr ''generated_at'']"
  by (simp add: render_defs)

text \<open>
  Claim C3, as amended. Substitution is not recursive for placeholders: where no
  occurrence has the reserved name without the record having that key, the output is the
  text in which each occurrence of the template stands replaced by the record's value as
  it is, whatever placeholder syntax the value holds, except that the second pass replaces
  the literal text \<open>{{generated_at}}\<close> with the timestamp wherever that text stands after
  the substitution, inside an inserted value too. When the substituted text does not hold
  that literal, it is the output.
\<close>

theorem values_not_rescanned:
  "parses t segs \<Longrightarrow>
   (row (ustr ''generated_at'') = None \<longrightarrow> Tok (ustr ''generated_at'') \<notin> set segs) \<Longrightarrow>
     html (render_template t row now) =
       py_replace (ustr ''{{generated_at}}'') (strftime now) (substituted row segs)
     \<and> (\<not> sublist (ustr ''{{generated_at}}'') (substituted row segs) \<longrightarrow>
          html (render_template t row now) = substituted row segs)"
  using render_template_html[of t segs row now]
    py_replace_absent[of "ustr ''{{generated_at}}''" "substituted row segs" "strftime now"]
  by simp

text \<open>
  The theorem at a record whose values \<open>{{b}}\<close> and \<open>{{ x }}\<close> are placeholders
  themselves: they reach the output as they are.
\<close>

theorem values_not_rescanned_witness:
  "html (render_template (ustr ''{{a}}-{{ b }}{{c}}!'')
       (map_of [(ustr ''a'', ustr ''{{b}}''), (ustr ''b'', ustr ''{{ x }}'')])
       \<lparr>year = 2026, month = 11, day = 3, hour = 14, minute = 32, second = 0\<rparr>)
     = ustr ''{{b}}-{{ x }}!''"
proof -
  let ?t = "ustr ''{{a}}-{{ b }}{{c}}!''"
  let ?row = "map_of [(ustr ''a'', ustr ''{{b}}''), (ustr ''b'', ustr ''{{ x }}'')]"
  let ?now = "\<lparr>year = 2026, month = 11, day = 3, hour = 14, minute = 32, second = 0\<rparr>"
  let ?segs = "[Tok (ustr ''a''), Lit 45, Tok (ustr ''b''), Tok (ustr ''c''), Lit 33]"
  have p: "parses ?t ?segs"
    by (simp, (rule parses_TokI parses_LitI parses_Nil, simp add: match_defs)+, rule parses_Nil)
  have g: "?row (ustr ''generated_at'') = None \<longrightarrow> Tok (ustr ''generated_at'') \<notin> set ?segs"
    by simp
  have s: "substituted ?row ?segs = ustr ''{{b}}-{{ x }}!''"
    by (simp add: substituted_def)
  have n: "\<not> sublist (ustr ''{{generated_at}}'') (substituted ?row ?segs)"
    unfolding s by (simp add: sublist_Cons_right)
  note inst = values_not_rescanned[of ?t ?segs ?row ?now, OF p g]
  have "html (render_template ?t ?row ?now) = substituted ?row ?segs"
    using inst[THEN conjunct2] n by (rule mp)
  then show ?thesis unfolding s .
qed

text \<open>
  Claim C3 as stated fails for the value \<open>{{generated_at}}\<close>: it is not inserted literally,
  the output holds the timestamp in its place.
\<close>

theorem value_with_timestamp_literal_counterexample:
  "parses (ustr ''{{v}}'') [Tok (ustr ''v'')]
   \<and> substituted (map_of [(ustr ''v'', ustr ''{{generated_at}}'')]) [Tok (ustr ''v'')]
       = ustr ''{{generated_at}}''
   \<and> html (render_template (ustr ''{{v}}'') (map_of [(ustr ''v'', ustr ''{{generated_at}}'')])
        \<lparr>year = 2026, month = 11, day = 3, hour = 14, minute = 32, second = 0\<rparr>)
       = ustr ''2026-11-03 14:32:00''"
proof -
  have "parses (ustr ''{{v}}'') [Tok (ustr ''v'')]"
    by (simp, (rule parses_TokI parses_LitI parses_Nil, simp add: match_defs)+, rule parses_Nil)
  then show ?thesis by (simp add: render_defs substituted_def)
qed

text \<open>
  Claim C10, as amended. If the record has a field \<open>generated_at\<close>, that name is never
  reported as unresolved, and if moreover the text after the substitution does not hold
  the literal \<open>{{generated_at}}\<close> anywhere, the output is that text, in which every
  \<open>generated_at\<close> placeholder of the template stands replaced by the record's value and not
  by the timestamp.
\<close>

theorem record_generated_at_wins:
  "row (ustr ''generated_at'') = Some v \<Longrightarrow>
     ustr ''generated_at'' \<notin> set (missing_placeholders (render_template t row now))
     \<and> (\<forall>segs. parses t segs \<and> \<not> sublist (ustr ''{{generated_at}}'') (substituted row segs) \<longrightarrow>
          html (render_template t row now) = substituted row segs \<and>
          resolve row (Tok (ustr ''generated_at'')) = v)"
proof -
  assume v: "row (ustr ''generated_at'') = Some v"
  obtain segs0 where p0: "parses t segs0" using parses_total by blast
  let ?names = "concat (map (unresolved row) segs0)"
  have "set (missing_placeholders (render_template t row now)) \<subseteq> set ?names"
    unfolding render_template_missing[OF p0] using set_remove1_subset[of _ ?names] by auto
  moreover have "ustr ''generated_at'' \<notin> set ?names"
    using v unresolved_names[of "ustr ''generated_at''" row segs0] by simp
  ultimately have a: "ustr ''generated_at'' \<notin> set (missing_placeholders (render_template t row now))"
    by blast
  have b: "html (render_template t row now) = substituted row segs"
    if "parses t segs" and "\<not> sublist (ustr ''{{generated_at}}'') (substituted row segs)" for segs
    using that render_template_html[of t segs row now]
      py_replace_absent[of "ustr ''{{generated_at}}''" "substituted row segs" "strftime now"]
    by simp
  have c: "resolve row (Tok (ustr ''generated_at'')) = v" using v by simp
  show ?thesis using a b c by blast
qed

text \<open>
  The theorem at the template \<open>At {{generated_at}}.\<close> and a record whose
  \<open>generated_at\<close> is \<open>noon\<close>.
\<close>

theorem record_generated_at_wins_witness:
  "ustr ''generated_at'' \<notin> set (missing_placeholders (render_template (ustr ''At {{generated_at}}.'')
       (map_of [(ustr ''generated_at'', ustr ''noon'')])
       \<lparr>year = 2026, month = 11, day = 3, hour = 14, minute = 32, second = 0\<rparr>))
   \<and> html (render_template (ustr ''At {{generated_at}}.'')
       (map_of [(ustr ''generated_at'', ustr ''noon'')])
       \<lparr>year = 2026, month = 11, day = 3, hour = 14, minute = 32, second = 0\<rparr>)
     = ustr ''At noon.''"
proof -
  let ?t = "ustr ''At {{generated_at}}.''"
  let ?row = "map_of [(ustr ''generated_at'', ustr ''noon'')]"
  let ?now = "\<lparr>year = 2026, month = 11, day = 3, hour = 14, minute = 32, second = 0\<rparr>"
  let ?segs = "[Lit 65, Lit 116, Lit 32, Tok (ustr ''generated_at''), Lit 46]"
  have v: "?row (ustr ''generated_at'') = Some (ustr ''noon'')" by simp
  have p: "parses ?t ?segs"
    by (simp, (rule parses_TokI parses_LitI parses_Nil, simp add: match_defs)+, rule parses_Nil)
  have s: "substituted ?row ?segs = ustr ''At noon.''"
    by (simp add: substituted_def)
  have n: "\<not> sublist (ustr ''{{generated_at}}'') (substituted ?row ?segs)"
    unfolding s by (simp add: sublist_Cons_right)
  from record_generated_at_wins[of ?row "ustr ''noon''" ?t ?now] v p n
  have "ustr ''generated_at'' \<notin> set (missing_placeholders (render_template ?t ?row ?now))"
    and "html (render_template ?t ?row ?now) = substituted ?row ?segs"
    by blast+
  then show ?thesis unfolding s by simp
qed

text \<open>
  Claim C10 as stated fails when the record's value does not hold the literal
  \<open>{{generated_at}}\<close> but forms it together with the template text after the placeholder:
  the value \<open>{{generated\<close> followed by \<open>_at}}\<close>. The output is the timestamp and holds
  nothing of the record's value.
\<close>

theorem record_value_joined_counterexample:
  "map_of [(ustr ''generated_at'', ustr ''{{generated'')] (ustr ''generated_at'') = Some (ustr ''{{generated'')
   \<and> \<not> sublist (ustr ''{{generated_at}}'') (ustr ''{{generated'')
   \<and> parses (ustr ''{{generated_at}}_at}}'')
       [Tok (ustr ''generated_at''), Lit 95, Lit 97, Lit 116, Lit 125, Lit 125]
   \<and> substituted (map_of [(ustr ''generated_at'', ustr ''{{generated'')])
       [Tok (ustr ''generated_at''), Lit 95, Lit 97, Lit 116, Lit 125, Lit 125]
       = ustr ''{{generated_at}}''
   \<and> html (render_template (ustr ''{{generated_at}}_at}}'')
        (map_of [(ustr ''generated_at'', ustr ''{{generated'')])
        \<lparr>year = 2026, month = 11, day = 3, hour = 14, minute = 32, second = 0\<rparr>)
       = ustr ''2026-11-03 14:32:00''"
proof -
  have "parses (ustr ''{{generated_at}}_at}}'')
       [Tok (ustr ''generated_at''), Lit 95, Lit 97, Lit 116, Lit 125, Lit 125]"
    by (simp, (rule parses_TokI parses_LitI parses_Nil, simp add: match_defs)+, rule parses_Nil)
  moreover have "\<not> sublist (ustr ''{{generated_at}}'') (ustr ''{{generated'')"
    by (simp add: sublist_Cons_right)
  ultimately show ?thesis by (simp add: render_defs substituted_def)
qed

section \<open>Running a batch\<close>

lemma batch_loop_calls:
  "pdf_calls (batch_loop w out_dir tpl idx rows st) =
     pdf_calls st @ map (\<lambda>(i, r). (i, out_pdf_of out_dir i r)) (enumerate idx rows)"
  by (induction rows arbitrary: idx st) (auto simp: Let_def split: sum.splits)

lemma batch_loop_paths:
  "generated_paths (batch_loop w out_dir tpl idx rows st) =
     generated_paths st @
     map (\<lambda>(i, r). out_pdf_of out_dir i r)
       (filter (\<lambda>(i, r). succeeded w out_dir tpl i r) (enumerate idx rows))"
  by (induction rows arbitrary: idx st) (auto simp: Let_def succeeded_def split: sum.splits)

lemma batch_loop_failures:
  "failures (batch_loop w out_dir tpl idx rows st) =
     failures st + length (filter (\<lambda>(i, r). \<not> succeeded w out_dir tpl i r) (enumerate idx rows))"
  by (induction rows arbitrary: idx st) (auto simp: Let_def succeeded_def split: sum.splits)

text \<open>
  Claim C4. For every composed template and every sequence of records, the loop calls the
  render-to-document operation for every record, in input order, whatever happened to the
  records before: a failed call only adds one to the failure count. After the run the
  produced paths are the output paths of the records whose call succeeded, in input order,
  the failure count is the number of records whose call failed, and the two counts add up
  to the number of records.
\<close>

theorem batch_isolation:
  "pdf_calls (batch_loop w out_dir tpl 1 rows no_batch) =
      map (\<lambda>(i, r). (i, out_pdf_of out_dir i r)) (enumerate 1 rows)
   \<and> generated_paths (batch_loop w out_dir tpl 1 rows no_batch) =
      map (\<lambda>(i, r). out_pdf_of out_dir i r)
        (filter (\<lambda>(i, r). succeeded w out_dir tpl i r) (enumerate 1 rows))
   \<and> failures (batch_loop w out_dir tpl 1 rows no_batch) =
      length (filter (\<lambda>(i, r). \<not> succeeded w out_dir tpl i r) (enumerate 1 rows))
   \<and> length (generated_paths (batch_loop w out_dir tpl 1 rows no_batch)) +
      failures (batch_loop w out_dir tpl 1 rows no_batch) = length rows"
proof -
  have "length (filter (\<lambda>(i, r). succeeded w out_dir tpl i r) (enumerate 1 rows)) +
        length (filter (\<lambda>(i, r). \<not> succeeded w out_dir tpl i r) (enumerate 1 rows)) =
        length (enumerate 1 rows)"
    using sum_length_filter_compl[of "\<lambda>(i, r). succeeded w out_dir tpl i r" "enumerate 1 rows"]
    by (simp add: split_def)
  then show ?thesis
    by (simp add: batch_loop_calls batch_loop_paths batch_loop_failures no_batch_def split_def)
qed

lemmas scenario_defs = scenario_world_def scenario_rows_def cleaned_def succeeded_def html_to_pdf_def
  out_pdf_of_def choose_output_filename_def eval_defs

text \<open>
  The theorem at the run of three records whose second PDF cannot be written: three calls,
  the paths of the first and the third record, one failure.
\<close>

theorem batch_isolation_witness:
  "map fst (pdf_calls (batch_loop scenario_world (Path (ustr ''output'')) (ustr ''<p>{{name}}</p>'') 1
       (map cleaned scenario_rows) no_batch))
     = [1, 2, 3]
   \<and> generated_paths (batch_loop scenario_world (Path (ustr ''output'')) (ustr ''<p>{{name}}</p>'') 1
       (map cleaned scenario_rows) no_batch)
     = [Div (Path (ustr ''output'')) (ustr ''a.pdf''), Div (Path (ustr ''output'')) (ustr ''document_0003.pdf'')]
   \<and> failures (batch_loop scenario_world (Path (ustr ''output'')) (ustr ''<p>{{name}}</p>'') 1
       (map cleaned scenario_rows) no_batch) = 1"
  using batch_isolation[of scenario_world "Path (ustr ''output'')" "ustr ''<p>{{name}}</p>''"
      "map cleaned scenario_rows"]
  by (simp add: scenario_defs)

section \<open>The exit status\<close>

text \<open>
  An exception other than \<open>FileNotFoundError\<close> raised while an input file is chosen, and,
  once the two input files are chosen, an exception raised by resolving the output
  directory or by one of the tests of the input validation, leaves \<open>main\<close>, whatever the
  rest of the world is, and the status of the process is 1.
\<close>

lemma main_left_by_select_csv:
  "select_csv w = Inl e \<Longrightarrow> e \<noteq> FileNotFoundError \<Longrightarrow> main w = Inl e \<and> exit_status (main w) = 1"
  by (simp add: main_def exit_status_def)

lemma main_left_by_select_template:
  "select_csv w = Inr csv_path \<Longrightarrow> select_template w = Inl e \<Longrightarrow> e \<noteq> FileNotFoundError \<Longrightarrow>
   main w = Inl e \<and> exit_status (main w) = 1"
  by (simp add: main_def exit_status_def)

lemma main_left_by_out_dir:
  "select_csv w = Inr csv_path \<Longrightarrow> select_template w = Inr template_path \<Longrightarrow>
   resolve_out_dir w = Inl e \<Longrightarrow> main w = Inl e \<and> exit_status (main w) = 1"
  by (simp add: main_def exit_status_def)

lemma main_left_by_exists:
  "select_csv w = Inr csv_path \<Longrightarrow> select_template w = Inr template_path \<Longrightarrow>
   resolve_out_dir w = Inr out_dir \<Longrightarrow> path_exists w csv_path = Inl e \<Longrightarrow>
   main w = Inl e \<and> exit_status (main w) = 1"
  by (simp add: main_def exit_status_def)

lemma main_left_by_template_exists:
  "select_csv w = Inr csv_path \<Longrightarrow> select_template w = Inr template_path \<Longrightarrow>
   resolve_out_dir w = Inr out_dir \<Longrightarrow> path_exists w csv_path = Inr True \<Longrightarrow>
   path_exists w template_path = Inl e \<Longrightarrow> main w = Inl e \<and> exit_status (main w) = 1"
  by (simp add: main_def exit_status_def)

lemma main_left_by_is_file:
  "select_csv w = Inr csv_path \<Longrightarrow> select_template w = Inr template_path \<Longrightarrow>
   resolve_out_dir w = Inr out_dir \<Longrightarrow> path_exists w csv_path = Inr True \<Longrightarrow>
   path_exists w template_path = Inr True \<Longrightarrow> path_is_file w template_path = Inl e \<Longrightarrow>
   main w = Inl e \<and> exit_status (main w) = 1"
  by (simp add: main_def exit_status_def)

text \<open>
  A run that reaches the loop returns 0 when no record failed and 1 otherwise.
\<close>

lemma main_completed:
  assumes "select_csv w = Inr csv_path" and "select_template w = Inr template_path"
    and "resolve_out_dir w = Inr out_dir"
    and "path_exists w csv_path = Inr True" and "path_exists w template_path = Inr True"
    and "path_is_file w template_path = Inr True"
    and "read_text w template_path = Inr template_text" and "load_csv w csv_path = Inr rows"
    and "mkdir w out_dir = Inr u"
  shows "main w =
     Inr \<lparr>exit_code =
            (if failures (batch_loop w out_dir (inject_css_into_html template_text DEFAULT_CSS) 1 rows no_batch) = 0
             then 0 else 1),
          final = batch_loop w out_dir (inject_css_into_html template_text DEFAULT_CSS) 1 rows no_batch\<rparr>"
  using assms by (simp add: main_def Let_def)

text \<open>
  Claim C9 at inputs where it fails. With an output directory \<open>~no_such_user/out\<close>
  resolving it raises \<open>RuntimeError\<close>, with a template path on which \<open>exists()\<close> raises
  \<open>OSError\<close> the template cannot be loaded, and with a CSV path \<open>~no_such_user/in.csv\<close>
  the record source cannot be resolved: each exception leaves \<open>main\<close>, no record is
  processed, and the status of the process is 1. That is the status of the completed
  run of three records with one failure, not a signal of its own. The template that is not
  UTF-8, which the code does catch, gives the code 2.
\<close>

theorem uncaught_input_failure_status:
  "main unresolvable_out_world = Inl RuntimeError
   \<and> exit_status (main unresolvable_out_world) = 1
   \<and> main untestable_template_world = Inl OSError
   \<and> exit_status (main untestable_template_world) = 1
   \<and> main unresolvable_csv_world = Inl RuntimeError
   \<and> exit_status (main unresolvable_csv_world) = 1
   \<and> map_sum id (\<lambda>r. failures (final r)) (main scenario_world) = Inr 1
   \<and> exit_status (main scenario_world) = 1
   \<and> main undecodable_world = Inr \<lparr>exit_code = 2, final = no_batch\<rparr>"
proof -
  have a: "main unresolvable_out_world = Inl RuntimeError \<and> exit_status (main unresolvable_out_world) = 1"
    by (rule main_left_by_out_dir[of _ "Path (ustr ''in.csv'')" "Path (ustr ''t.html'')"])
      (simp_all add: unresolvable_out_world_def scenario_world_def)
  have b: "main untestable_template_world = Inl OSError \<and> exit_status (main untestable_template_world) = 1"
    by (rule main_left_by_template_exists[of _ "Path (ustr ''in.csv'')" "Path (ustr ''t.html'')"
          "Path (ustr ''output'')"])
      (simp_all add: untestable_template_world_def scenario_world_def)
  have b': "main unresolvable_csv_world = Inl RuntimeError \<and> exit_status (main unresolvable_csv_world) = 1"
    by (rule main_left_by_select_csv) (simp_all add: unresolvable_csv_world_def scenario_world_def)
  define st where
    "st = batch_loop scenario_world (Path (ustr ''output''))
            (inject_css_into_html (ustr ''<p>{{name}}</p>'') DEFAULT_CSS) 1
            (map cleaned scenario_rows) no_batch"
  have rows: "load_csv scenario_world (Path (ustr ''in.csv'')) = Inr (map cleaned scenario_rows)"
    by (simp add: load_csv_def scenario_world_def)
  have m: "main scenario_world = Inr \<lparr>exit_code = (if failures st = 0 then 0 else 1), final = st\<rparr>"
    unfolding st_def
    by (rule main_completed[where csv_path = "Path (ustr ''in.csv'')"
          and template_path = "Path (ustr ''t.html'')" and u = "()", OF _ _ _ _ _ _ _ rows])
      (simp_all add: scenario_world_def)
  have f: "failures st = 1"
    unfolding st_def batch_loop_failures by (simp add: scenario_defs no_batch_def)
  have c: "map_sum id (\<lambda>r. failures (final r)) (main scenario_world) = Inr 1
      \<and> exit_status (main scenario_world) = 1"
    unfolding m using f by (simp add: exit_status_def)
  have d: "main undecodable_world = Inr \<lparr>exit_code = 2, final = no_batch\<rparr>"
    by (simp add: main_def undecodable_world_def scenario_world_def)
  show ?thesis using a b b' c d by (simp add: exit_status_def)
qed

end
